theory Spec2Isabelle
  imports Complex_Main "HOL-Library.Multiset"
begin

section \<open>Data model (app.py, lines 29-47)\<close>

text \<open>
  The two ORM models become records, one row each. Column \<open>id\<close> of both tables is
  named after its table, since both records live in one name space. Rows are the ones the
  handlers write, so \<open>status\<close> and \<open>created_at\<close> always hold a value.

  A price is whatever Python's \<open>float\<close> returned for the posted text (line 97): a number,
  one of the two infinities, or NaN. The handlers only store, compare and forward prices,
  they never compute with them, so a number is a real here. \<open>negative\<close> is the comparison
  \<open>p < 0\<close> of Python: true of the negative numbers and of minus infinity, false of NaN.
  The \<open>balance\<close> of an account is only ever its default \<open>0.0\<close>.
\<close>

datatype pyfloat = Number real | PlusInfinity | MinusInfinity | NotANumber

fun negative :: "pyfloat \<Rightarrow> bool" where
  "negative (Number x) = (x < 0)"
| "negative MinusInfinity = True"
| "negative PlusInfinity = False"
| "negative NotANumber = False"

record user =
  user_id :: nat
  username :: string
  email :: string
  password :: string
  balance :: real

record listing =
  listing_id :: nat
  title :: string
  description :: string
  price :: pyfloat
  game :: string
  image_file :: "string option"
  seller_id :: nat
  status :: string
  created_at :: int

section \<open>Requests, responses and the collaborators\<close>

datatype http_method = GET | POST

record upload =
  filename :: string
  content :: string

record request =
  req_method :: http_method
  form :: "string \<rightharpoonup> string"
  files :: "string \<rightharpoonup> upload"

text \<open>The dictionary handed to \<open>Payment.create\<close> (lines 121-133).\<close>

record payment_request =
  amount_value :: string
  amount_currency :: string
  confirmation_type :: string
  confirmation_return_url :: string
  capture :: bool
  payment_description :: string
  metadata_listing_id :: nat

text \<open>
  Exceptions that no handler catches. Flask turns them into a server error; the database
  session is discarded with the request, so only committed writes persist.
\<close>

datatype fault = IntegrityError | ValueError | IsADirectoryError | PaymentError string

datatype response =
    Render string "listing list"
  | Redirect string
  | Abort nat
  | LoginRequired
  | Unhandled fault

text \<open>
  What the handlers call but the file does not define: the password hashing of werkzeug,
  Python's \<open>float\<close> and \<open>:.2f\<close> formatting, the clock, \<open>secure_filename\<close> and the
  payment provider. They are parameters of every handler. \<open>float_of_str\<close> is \<open>None\<close>
  where \<open>float\<close> raises \<open>ValueError\<close>; \<open>payment_create\<close> is \<open>Inl\<close> where the provider
  call raises, and otherwise the confirmation URL of the payment it returns.
\<close>

record env =
  generate_password_hash :: "string \<Rightarrow> string"
  check_password_hash :: "string \<Rightarrow> string \<Rightarrow> bool"
  float_of_str :: "string \<Rightarrow> pyfloat option"
  format_2f :: "pyfloat \<Rightarrow> string"
  utcnow :: int
  str_timestamp :: "int \<Rightarrow> string"
  secure_filename :: "string \<Rightarrow> string"
  host_url :: string
  payment_create :: "payment_request \<Rightarrow> string \<Rightarrow> string + string"

text \<open>
  The state a request runs in: both tables, the logged-in user id of the session, the
  flashed messages, the calls made to the payment provider so far, and the files written
  under the upload folder.
\<close>

record world =
  users :: "user list"
  listings :: "listing list"
  session_user :: "nat option"
  flashes :: "string list"
  payments :: "(payment_request \<times> string) list"
  uploads :: "(string \<times> string) list"

section \<open>Framework operations\<close>

definition flash :: "string \<Rightarrow> world \<Rightarrow> world" where
  "flash msg w = w\<lparr>flashes := flashes w @ [msg]\<rparr>"

definition url_for :: "string \<Rightarrow> string" where
  "url_for endpoint =
     (if endpoint = ''index'' then ''/''
      else if endpoint = ''register'' then ''/register''
      else if endpoint = ''login'' then ''/login''
      else if endpoint = ''confirm_payment'' then ''/confirm_payment''
      else ''/'' @ endpoint)"

text \<open>\<open>User.query.get(int(user_id))\<close>, line 51.\<close>

definition load_user :: "world \<Rightarrow> nat \<Rightarrow> user option" where
  "load_user w uid = find (\<lambda>u. user_id u = uid) (users w)"

definition current_user :: "world \<Rightarrow> user option" where
  "current_user w = (case session_user w of None \<Rightarrow> None | Some uid \<Rightarrow> load_user w uid)"

text \<open>
  \<open>@login_required\<close> without a logged-in user: the login manager flashes its message and
  redirects to the login view (line 23).
\<close>

definition unauthorized :: "world \<Rightarrow> world \<times> response" where
  "unauthorized w = (flash ''Please log in to access this page.'' w, LoginRequired)"

text \<open>
  \<open>User.query.filter_by(username=...).first()\<close>, lines 65 and 78. Strings are compared
  for equality, as the default SQLite database of line 16 does.
\<close>

definition user_by_username :: "world \<Rightarrow> string \<Rightarrow> user option" where
  "user_by_username w un = find (\<lambda>u. username u = un) (users w)"

text \<open>\<open>Listing.query.get(listing_id)\<close>, the lookup of line 114.\<close>

definition get_listing :: "world \<Rightarrow> nat \<Rightarrow> listing option" where
  "get_listing w lid = find (\<lambda>l. listing_id l = lid) (listings w)"

definition status_of :: "world \<Rightarrow> nat \<Rightarrow> string option" where
  "status_of w lid = map_option status (get_listing w lid)"

text \<open>An integer primary key that the insert leaves out: one more than the largest.\<close>

definition next_id :: "nat list \<Rightarrow> nat" where
  "next_id ids = Suc (fold max ids 0)"

text \<open>
  Adding a \<open>User\<close> and committing (lines 68-70). Both \<open>username\<close> and \<open>email\<close> are
  declared \<open>unique=True\<close> (lines 32-33), so the insert raises \<open>IntegrityError\<close> when
  either value is already in the table.
\<close>

definition insert_user :: "world \<Rightarrow> string \<Rightarrow> string \<Rightarrow> string \<Rightarrow> fault + world" where
  "insert_user w un em pw =
     (if list_ex (\<lambda>u. username u = un \<or> email u = em) (users w) then Inl IntegrityError
      else Inr (w\<lparr>users := users w @
        [\<lparr>user_id = next_id (map user_id (users w)), username = un, email = em,
          password = pw, balance = 0\<rparr>]\<rparr>))"

text \<open>
  Adding a \<open>Listing\<close> and committing (lines 104-106): \<open>status\<close> and \<open>created_at\<close>
  take their column defaults (lines 46-47). The \<open>price\<close> column is declared
  \<open>nullable=False\<close> (line 42) and SQLite, the database of line 16, stores a NaN as NULL:
  the insert of a NaN price raises \<open>IntegrityError\<close> and adds no row. The infinities are
  stored as they are.
\<close>

definition insert_listing ::
  "env \<Rightarrow> world \<Rightarrow> string \<Rightarrow> string \<Rightarrow> pyfloat \<Rightarrow> string \<Rightarrow> string option \<Rightarrow> nat
     \<Rightarrow> fault + world" where
  "insert_listing e w t d p g img sid =
     (if p = NotANumber then Inl IntegrityError
      else Inr (w\<lparr>listings := listings w @
        [\<lparr>listing_id = next_id (map listing_id (listings w)), title = t, description = d,
          price = p, game = g, image_file = img, seller_id = sid, status = ''active'',
          created_at = utcnow e\<rparr>]\<rparr>))"

text \<open>Assigning \<open>listing.status\<close> and committing (lines 136-137): an update by primary key.\<close>

definition set_status :: "nat \<Rightarrow> string \<Rightarrow> world \<Rightarrow> world" where
  "set_status lid s w =
     w\<lparr>listings := map (\<lambda>l. if listing_id l = lid then l\<lparr>status := s\<rparr> else l) (listings w)\<rparr>"

section \<open>Routes\<close>

text \<open>
  A handler whose body reads the request takes it as an argument. \<open>index\<close>, \<open>logout\<close>,
  \<open>profile\<close> and \<open>buy\<close> do not: they are the bodies as the router reaches them, by
  \<open>GET\<close> for the first three and by \<open>POST\<close> for \<open>buy\<close>.
\<close>

subsection \<open>index (lines 54-57)\<close>

text \<open>
  The query of line 56. Rows with equal timestamps stay in table order, which is one of the
  orders the database may return them in.
\<close>

definition order_by_created_at_desc :: "listing list \<Rightarrow> listing list" where
  "order_by_created_at_desc ls = sort_key (\<lambda>l. - created_at l) ls"

definition index :: "world \<Rightarrow> world \<times> response" where
  "index w =
     (w, Render ''index.html''
           (order_by_created_at_desc (filter (\<lambda>l. status l = ''active'') (listings w))))"

text \<open>The listings a response hands to its template.\<close>

fun rendered :: "response \<Rightarrow> listing list" where
  "rendered (Render t ls) = ls"
| "rendered r = []"

definition listActive :: "world \<Rightarrow> listing list" where
  "listActive w = rendered (snd (index w))"

subsection \<open>register (lines 59-73)\<close>

definition register :: "env \<Rightarrow> request \<Rightarrow> world \<Rightarrow> world \<times> response" where
  "register e r w =
     (if req_method r = POST then
        (case form r ''username'' of
           None \<Rightarrow> (w, Abort 400)
         | Some un \<Rightarrow>
        (case form r ''email'' of
           None \<Rightarrow> (w, Abort 400)
         | Some em \<Rightarrow>
        (case form r ''password'' of
           None \<Rightarrow> (w, Abort 400)
         | Some pw \<Rightarrow>
           let hashed = generate_password_hash e pw in
           if user_by_username w un \<noteq> None then
             (flash ''Username already exists'' w, Redirect (url_for ''register''))
           else
             (case insert_user w un em hashed of
                Inl f \<Rightarrow> (w, Unhandled f)
              | Inr w' \<Rightarrow> (flash ''Registered successfully!'' w', Redirect (url_for ''login''))))))
      else (w, Render ''register.html'' []))"

subsection \<open>login and logout (lines 75-89)\<close>

text \<open>
  The password field is read only when the user was found: \<open>and\<close> does not evaluate its
  right operand otherwise (line 79).
\<close>

definition login :: "env \<Rightarrow> request \<Rightarrow> world \<Rightarrow> world \<times> response" where
  "login e r w =
     (if req_method r = POST then
        (case form r ''username'' of
           None \<Rightarrow> (w, Abort 400)
         | Some un \<Rightarrow>
        (case user_by_username w un of
           None \<Rightarrow> (flash ''Invalid credentials'' w, Render ''login.html'' [])
         | Some u \<Rightarrow>
        (case form r ''password'' of
           None \<Rightarrow> (w, Abort 400)
         | Some pw \<Rightarrow>
           if check_password_hash e (password u) pw then
             (w\<lparr>session_user := Some (user_id u)\<rparr>, Redirect (url_for ''index''))
           else (flash ''Invalid credentials'' w, Render ''login.html'' []))))
      else (w, Render ''login.html'' []))"

definition logout :: "world \<Rightarrow> world \<times> response" where
  "logout w =
     (case current_user w of
        None \<Rightarrow> unauthorized w
      | Some cu \<Rightarrow> (w\<lparr>session_user := None\<rparr>, Redirect (url_for ''index'')))"

subsection \<open>add_listing (lines 91-109)\<close>

text \<open>
  Lines 99-103. An upload whose file name is empty is falsy and is skipped. The file is
  written to the upload folder under its sanitised name, replacing what was there; when
  that name is empty the path is the folder itself and opening it for writing raises.
\<close>

definition save_image :: "env \<Rightarrow> request \<Rightarrow> world \<Rightarrow> fault + (string option \<times> world)" where
  "save_image e r w =
     (case files r ''image'' of
        None \<Rightarrow> Inr (None, w)
      | Some img \<Rightarrow>
          if filename img = [] then Inr (None, w)
          else
            let fn = secure_filename e (filename img) in
            if fn = [] then Inl IsADirectoryError
            else Inr (Some fn,
              w\<lparr>uploads := (''static/uploads/'' @ fn, content img)
                   # filter (\<lambda>f. fst f \<noteq> ''static/uploads/'' @ fn) (uploads w)\<rparr>))"

definition add_listing :: "env \<Rightarrow> request \<Rightarrow> world \<Rightarrow> world \<times> response" where
  "add_listing e r w =
     (case current_user w of
        None \<Rightarrow> unauthorized w
      | Some cu \<Rightarrow>
     (if req_method r = POST then
        (case form r ''title'' of
           None \<Rightarrow> (w, Abort 400)
         | Some t \<Rightarrow>
        (case form r ''description'' of
           None \<Rightarrow> (w, Abort 400)
         | Some d \<Rightarrow>
        (case form r ''price'' of
           None \<Rightarrow> (w, Abort 400)
         | Some ps \<Rightarrow>
        (case float_of_str e ps of
           None \<Rightarrow> (w, Unhandled ValueError)
         | Some p \<Rightarrow>
        (case form r ''game'' of
           None \<Rightarrow> (w, Abort 400)
         | Some g \<Rightarrow>
        (case save_image e r w of
           Inl f \<Rightarrow> (w, Unhandled f)
         | Inr (img, w1) \<Rightarrow>
        (case insert_listing e w1 t d p g img (user_id cu) of
           Inl f \<Rightarrow> (w1, Unhandled f)
         | Inr w2 \<Rightarrow> (flash ''Listing added!'' w2, Redirect (url_for ''index'')))))))))
      else (w, Render ''add_listing.html'' [])))"

subsection \<open>buy (lines 111-139)\<close>

definition payment_request_for :: "env \<Rightarrow> listing \<Rightarrow> nat \<Rightarrow> payment_request" where
  "payment_request_for e l lid =
     \<lparr>amount_value = format_2f e (price l), amount_currency = ''RUB'',
      confirmation_type = ''redirect'',
      confirmation_return_url = host_url e @ url_for ''confirm_payment'',
      capture = True, payment_description = ''Purchase: '' @ title l,
      metadata_listing_id = lid\<rparr>"

definition idempotence_key :: "env \<Rightarrow> string" where
  "idempotence_key e = str_timestamp e (utcnow e)"

text \<open>
  The provider is called first (line 121); the status is written and committed only after
  the call has returned (lines 136-137). Every call is recorded in \<open>payments\<close>, whether it
  returns or raises. A payment that is returned carries the confirmation URL asked for at
  lines 126-129, which line 139 redirects to.
\<close>

definition buy :: "env \<Rightarrow> nat \<Rightarrow> world \<Rightarrow> world \<times> response" where
  "buy e lid w =
     (case current_user w of
        None \<Rightarrow> unauthorized w
      | Some cu \<Rightarrow>
     (case get_listing w lid of
        None \<Rightarrow> (w, Abort 404)
      | Some l \<Rightarrow>
          if seller_id l = user_id cu then
            (flash ''Cannot buy your own listing'' w, Redirect (url_for ''index''))
          else
            let key = idempotence_key e;
                req = payment_request_for e l lid;
                w1 = w\<lparr>payments := payments w @ [(req, key)]\<rparr>
            in (case payment_create e req key of
                  Inl f \<Rightarrow> (w1, Unhandled (PaymentError f))
                | Inr url \<Rightarrow> (set_status lid ''pending'' w1, Redirect url))))"

subsection \<open>confirm_payment and profile (lines 141-151)\<close>

text \<open>
  The route of line 141 names no methods, so it answers \<open>GET\<close> only: a request with
  another method gets status 405 from the router, and the body of lines 144-145 does not run.
\<close>

definition confirm_payment :: "request \<Rightarrow> world \<Rightarrow> world \<times> response" where
  "confirm_payment r w =
     (if req_method r = GET then
        (flash ''Payment processed! Check your email for delivery.'' w,
         Redirect (url_for ''index''))
      else (w, Abort 405))"

definition profile :: "world \<Rightarrow> world \<times> response" where
  "profile w =
     (case current_user w of
        None \<Rightarrow> unauthorized w
      | Some cu \<Rightarrow>
          (w, Render ''profile.html'' (filter (\<lambda>l. seller_id l = user_id cu) (listings w))))"

section \<open>A small shop, used to run the handlers on concrete requests\<close>

text \<open>
  Three accounts and three listings, Bob logged in. The collaborators are fixed so that
  the handlers compute: a password hash is the password behind a prefix, and \<open>float\<close>
  knows four prices, NaN and minus infinity among them.
\<close>

definition alice :: user where
  "alice = \<lparr>user_id = 1, username = ''alice'', email = ''alice@example.org'',
            password = ''h:wonderland'', balance = 0\<rparr>"

definition bob :: user where
  "bob = \<lparr>user_id = 2, username = ''bob'', email = ''bob@example.org'',
          password = ''h:builder'', balance = 0\<rparr>"

definition sword :: listing where
  "sword = \<lparr>listing_id = 1, title = ''Sword'', description = ''sharp'', price = Number 10,
            game = ''X'', image_file = None, seller_id = 1, status = ''active'',
            created_at = 100\<rparr>"

definition shield :: listing where
  "shield = \<lparr>listing_id = 2, title = ''Shield'', description = ''round'', price = Number 7,
             game = ''X'', image_file = None, seller_id = 1, status = ''pending'',
             created_at = 200\<rparr>"

definition bow :: listing where
  "bow = \<lparr>listing_id = 3, title = ''Bow'', description = ''long'', price = Number 3,
          game = ''Y'', image_file = None, seller_id = 2, status = ''active'',
          created_at = 300\<rparr>"

definition carol :: user where
  "carol = \<lparr>user_id = 3, username = ''carol'', email = ''carol@example.org'',
            password = ''h:singer'', balance = 0\<rparr>"

definition shop :: world where
  "shop = \<lparr>users = [alice, bob, carol], listings = [sword, shield, bow], session_user = Some 2,
           flashes = [], payments = [], uploads = []\<rparr>"

definition provider_up :: env where
  "provider_up =
     \<lparr>generate_password_hash = (\<lambda>p. ''h:'' @ p),
      check_password_hash = (\<lambda>h p. h = ''h:'' @ p),
      float_of_str =
        (\<lambda>s. if s = ''10.00'' then Some (Number 10)
             else if s = ''-5'' then Some (Number (- 5))
             else if s = ''-inf'' then Some MinusInfinity
             else if s = ''nan'' then Some NotANumber
             else None),
      format_2f =
        (\<lambda>x. if x = Number 10 then ''10.00''
             else if x = Number 7 then ''7.00''
             else if x = Number 3 then ''3.00''
             else ''0.00''),
      utcnow = 1000,
      str_timestamp = (\<lambda>t. ''1000.0''),
      secure_filename = (\<lambda>s. s),
      host_url = ''http://localhost:5000'',
      payment_create = (\<lambda>req key. Inr ''https://pay.example/checkout'')\<rparr>"

definition provider_down :: env where
  "provider_down = provider_up\<lparr>payment_create := (\<lambda>req key. Inl ''connection refused'')\<rparr>"

definition post :: "(string \<times> string) list \<Rightarrow> request" where
  "post kvs = \<lparr>req_method = POST, form = map_of kvs, files = Map.empty\<rparr>"

definition dave_request :: request where
  "dave_request =
     post [(''username'', ''dave''), (''email'', ''alice@example.org''), (''password'', ''pw'')]"

definition alice_again_request :: request where
  "alice_again_request =
     post [(''username'', ''alice''), (''email'', ''other@example.org''), (''password'', ''pw'')]"

definition wrong_password_request :: request where
  "wrong_password_request = post [(''username'', ''alice''), (''password'', ''guess'')]"

definition unknown_user_request :: request where
  "unknown_user_request = post [(''username'', ''mallory''), (''password'', ''guess'')]"

definition axe_request :: "string \<Rightarrow> request" where
  "axe_request ps =
     post [(''title'', ''Axe''), (''description'', ''heavy''), (''price'', ps), (''game'', ''Z'')]"

definition callback_request :: request where
  "callback_request =
     \<lparr>req_method = GET, form = map_of [(''listing_id'', ''1'')], files = Map.empty\<rparr>"

definition visitor :: world where
  "visitor = shop\<lparr>session_user := None\<rparr>"

definition after_first_purchase :: world where
  "after_first_purchase = (fst (buy provider_up 1 shop))\<lparr>session_user := Some 3\<rparr>"

lemmas shop_defs =
  alice_def bob_def carol_def sword_def shield_def bow_def shop_def provider_up_def
  post_def

lemmas model_defs =
  flash_def url_for_def load_user_def current_user_def unauthorized_def user_by_username_def
  get_listing_def status_of_def next_id_def insert_user_def insert_listing_def set_status_def
  order_by_created_at_desc_def index_def listActive_def payment_request_for_def
  idempotence_key_def

section \<open>Facts about the store operations\<close>

lemma find_map_update:
  "find (\<lambda>l. listing_id l = lid) ls = Some l \<Longrightarrow>
   find (\<lambda>l. listing_id l = lid)
     (map (\<lambda>x. if listing_id x = lid then x\<lparr>status := s\<rparr> else x) ls) = Some (l\<lparr>status := s\<rparr>)"
  by (induction ls) (auto split: if_splits)

lemma get_listing_set_status:
  "get_listing w lid = Some l \<Longrightarrow> get_listing (set_status lid s w) lid = Some (l\<lparr>status := s\<rparr>)"
  by (simp add: get_listing_def set_status_def find_map_update)

lemma map_status_sets_all:
  "x \<in> set (map (\<lambda>l. if listing_id l = lid then l\<lparr>status := s\<rparr> else l) ls) \<Longrightarrow>
   listing_id x = lid \<Longrightarrow> status x = s"
proof (induction ls)
  case Nil
  then show ?case by simp
next
  case (Cons a ls)
  show ?case
  proof (cases "listing_id a = lid")
    case True
    with Cons show ?thesis by fastforce
  next
    case False
    with Cons show ?thesis by fastforce
  qed
qed

lemma set_status_sets_all:
  assumes "x \<in> set (listings (set_status lid s w))" and "listing_id x = lid"
  shows "status x = s"
proof -
  have "listings (set_status lid s w) =
      map (\<lambda>l. if listing_id l = lid then l\<lparr>status := s\<rparr> else l) (listings w)"
    by (simp add: set_status_def)
  with assms(1)
  have "x \<in> set (map (\<lambda>l. if listing_id l = lid then l\<lparr>status := s\<rparr> else l) (listings w))"
    by (simp only:)
  then show ?thesis using assms(2) by (rule map_status_sets_all)
qed

lemma set_listActive:
  "set (listActive w) = {l \<in> set (listings w). status l = ''active''}"
  by (auto simp: listActive_def index_def order_by_created_at_desc_def)

lemma buy_paid:
  assumes "current_user w = Some cu" and "get_listing w lid = Some l"
    and "seller_id l \<noteq> user_id cu"
    and "payment_create e (payment_request_for e l lid) (idempotence_key e) = Inr url"
  shows "buy e lid w =
    (set_status lid ''pending''
       (w\<lparr>payments := payments w @ [(payment_request_for e l lid, idempotence_key e)]\<rparr>),
     Redirect url)"
  using assms by (simp add: buy_def Let_def)

lemma get_listing_payments_update [simp]:
  "get_listing (w\<lparr>payments := ps\<rparr>) lid = get_listing w lid"
  by (simp add: get_listing_def)

lemma save_image_tables:
  "save_image e r w = Inr (img, w1) \<Longrightarrow> listings w1 = listings w \<and> users w1 = users w"
  by (auto simp: save_image_def Let_def split: option.splits if_splits)

lemma flash_tables [simp]:
  "users (flash m w) = users w" "listings (flash m w) = listings w"
  "payments (flash m w) = payments w" "session_user (flash m w) = session_user w"
  "uploads (flash m w) = uploads w"
  by (simp_all add: flash_def)

lemma get_listing_flash [simp]: "get_listing (flash m w) lid = get_listing w lid"
  by (simp add: get_listing_def)

lemma status_of_flash [simp]: "status_of (flash m w) lid = status_of w lid"
  by (simp add: status_of_def)

lemma user_by_username_flash [simp]: "user_by_username (flash m w) un = user_by_username w un"
  by (simp add: user_by_username_def)

lemma listActive_payments_update [simp]: "listActive (w\<lparr>payments := ps\<rparr>) = listActive w"
  by (simp add: listActive_def index_def)

section \<open>Purchase\<close>

text \<open>
  C1. When a logged-in user who is not the seller buys a listing and the provider call
  returns, the response is the redirect to the checkout page, the listing's status is
  \<open>pending\<close>, and no row with that id is in the result of \<open>listActive\<close> afterwards.
\<close>

theorem buy_marks_pending:
  assumes "current_user w = Some cu" and "get_listing w lid = Some l"
    and "seller_id l \<noteq> user_id cu"
    and "payment_create e (payment_request_for e l lid) (idempotence_key e) = Inr url"
  shows "snd (buy e lid w) = Redirect url
    \<and> status_of (fst (buy e lid w)) lid = Some ''pending''
    \<and> (\<forall>x \<in> set (listActive (fst (buy e lid w))). listing_id x \<noteq> lid)"
proof -
  let ?w1 = "w\<lparr>payments := payments w @ [(payment_request_for e l lid, idempotence_key e)]\<rparr>"
  have b: "buy e lid w = (set_status lid ''pending'' ?w1, Redirect url)"
    using assms by (rule buy_paid)
  have "get_listing ?w1 lid = Some l"
    using assms(2) by simp
  then have s: "status_of (set_status lid ''pending'' ?w1) lid = Some ''pending''"
    by (simp add: status_of_def get_listing_set_status)
  have "listing_id x \<noteq> lid" if "x \<in> set (listActive (set_status lid ''pending'' ?w1))" for x
  proof
    assume "listing_id x = lid"
    moreover from that have "x \<in> set (listings (set_status lid ''pending'' ?w1))"
      and "status x = ''active''"
      by (simp_all add: set_listActive)
    ultimately have "status x = ''pending''"
      using set_status_sets_all by blast
    with \<open>status x = ''active''\<close> show False by simp
  qed
  with b s show ?thesis by simp
qed

theorem buy_marks_pending_witness:
  "current_user shop = Some bob \<and> get_listing shop 1 = Some sword
   \<and> seller_id sword \<noteq> user_id bob
   \<and> snd (buy provider_up 1 shop) = Redirect ''https://pay.example/checkout''
   \<and> status_of (fst (buy provider_up 1 shop)) 1 = Some ''pending''
   \<and> map listing_id (listActive shop) = [3, 1]
   \<and> map listing_id (listActive (fst (buy provider_up 1 shop))) = [3]"
proof -
  have h1: "current_user shop = Some bob"
    by (simp add: shop_defs current_user_def load_user_def)
  have h2: "get_listing shop 1 = Some sword"
    by (simp add: shop_defs get_listing_def)
  have h3: "seller_id sword \<noteq> user_id bob"
    by (simp add: shop_defs)
  have h4: "payment_create provider_up (payment_request_for provider_up sword 1)
      (idempotence_key provider_up) = Inr ''https://pay.example/checkout''"
    by (simp add: provider_up_def)
  have before: "map listing_id (listActive shop) = [3, 1]"
    by (simp add: shop_defs model_defs)
  have after: "map listing_id (listActive (fst (buy provider_up 1 shop))) = [3]"
    by (simp add: shop_defs model_defs buy_def Let_def)
  show ?thesis
    using buy_marks_pending [OF h1 h2 h3 h4] h1 h2 h3 before after by simp
qed


text \<open>
  C2 (as stated it fails). With the provider down, the purchase of listing 1 ends in the
  provider's fault, and the listing is still \<open>active\<close> and still listed.
\<close>

theorem buy_provider_fault_counterexample:
  "current_user shop = Some bob \<and> get_listing shop 1 = Some sword
   \<and> snd (buy provider_down 1 shop) = Unhandled (PaymentError ''connection refused'')
   \<and> status_of (fst (buy provider_down 1 shop)) 1 = Some ''active''
   \<and> status_of (fst (buy provider_down 1 shop)) 1 \<noteq> Some ''pending''
   \<and> map listing_id (listActive (fst (buy provider_down 1 shop))) = [3, 1]"
  by (simp add: provider_down_def shop_defs model_defs buy_def Let_def)

text \<open>
  C2, amended. When the provider call raises, the fault leaves the handler uncaught and
  both tables are as they were: the listing keeps the status it had, and \<open>listActive\<close>
  returns what it returned before. The status is written only after the call has returned.
\<close>

theorem buy_provider_fault_keeps_state:
  assumes "current_user w = Some cu" and "get_listing w lid = Some l"
    and "seller_id l \<noteq> user_id cu"
    and "payment_create e (payment_request_for e l lid) (idempotence_key e) = Inl f"
  shows "snd (buy e lid w) = Unhandled (PaymentError f)
    \<and> users (fst (buy e lid w)) = users w
    \<and> listings (fst (buy e lid w)) = listings w
    \<and> status_of (fst (buy e lid w)) lid = Some (status l)
    \<and> listActive (fst (buy e lid w)) = listActive w"
proof -
  have "buy e lid w =
      (w\<lparr>payments := payments w @ [(payment_request_for e l lid, idempotence_key e)]\<rparr>,
       Unhandled (PaymentError f))"
    using assms by (simp add: buy_def Let_def)
  then show ?thesis
    using assms(2) by (simp add: status_of_def)
qed

theorem buy_provider_fault_keeps_state_witness:
  "current_user shop = Some bob \<and> get_listing shop 1 = Some sword
   \<and> seller_id sword \<noteq> user_id bob
   \<and> snd (buy provider_down 1 shop) = Unhandled (PaymentError ''connection refused'')
   \<and> listings (fst (buy provider_down 1 shop)) = listings shop
   \<and> status_of (fst (buy provider_down 1 shop)) 1 = Some (status sword)
   \<and> status sword = ''active''"
proof -
  have h1: "current_user shop = Some bob"
    by (simp add: shop_defs current_user_def load_user_def)
  have h2: "get_listing shop 1 = Some sword"
    by (simp add: shop_defs get_listing_def)
  have h3: "seller_id sword \<noteq> user_id bob"
    by (simp add: shop_defs)
  have h4: "payment_create provider_down (payment_request_for provider_down sword 1)
      (idempotence_key provider_down) = Inl ''connection refused''"
    by (simp add: provider_down_def)
  have h5: "status sword = ''active''"
    by (simp add: sword_def)
  show ?thesis
    using buy_provider_fault_keeps_state [OF h1 h2 h3 h4] h1 h2 h3 h5 by simp
qed

text \<open>
  C3 (as stated it fails). Bob has bought listing 1, which is now \<open>pending\<close>; Carol then
  buys the same listing, and her purchase goes through: a second payment is created and
  she is sent to the checkout page.
\<close>

theorem buy_pending_second_buyer_counterexample:
  "status_of after_first_purchase 1 = Some ''pending''
   \<and> current_user after_first_purchase = Some carol
   \<and> length (payments after_first_purchase) = 1
   \<and> snd (buy provider_up 1 after_first_purchase) = Redirect ''https://pay.example/checkout''
   \<and> length (payments (fst (buy provider_up 1 after_first_purchase))) = 2"
  by (simp add: after_first_purchase_def shop_defs model_defs buy_def Let_def)

text \<open>
  C3, amended. \<open>buy\<close> does not read the status. On a listing that is \<open>pending\<close>, the
  purchase by a logged-in user who is not the seller goes through whenever the provider
  call returns: a payment is created, the user is redirected to the checkout page, and
  the status stays \<open>pending\<close>.
\<close>

theorem buy_ignores_pending_status:
  assumes "current_user w = Some cu" and "get_listing w lid = Some l"
    and "status l = ''pending''" and "seller_id l \<noteq> user_id cu"
    and "payment_create e (payment_request_for e l lid) (idempotence_key e) = Inr url"
  shows "snd (buy e lid w) = Redirect url
    \<and> payments (fst (buy e lid w)) =
        payments w @ [(payment_request_for e l lid, idempotence_key e)]
    \<and> status_of (fst (buy e lid w)) lid = Some ''pending''"
proof -
  let ?w1 = "w\<lparr>payments := payments w @ [(payment_request_for e l lid, idempotence_key e)]\<rparr>"
  have b: "buy e lid w = (set_status lid ''pending'' ?w1, Redirect url)"
    using assms(1,2,4,5) by (rule buy_paid)
  have "get_listing ?w1 lid = Some l"
    using assms(2) by simp
  then have "status_of (set_status lid ''pending'' ?w1) lid = Some ''pending''"
    by (simp add: status_of_def get_listing_set_status)
  with b show ?thesis by (simp add: set_status_def)
qed

theorem buy_ignores_pending_status_witness:
  "current_user shop = Some bob \<and> get_listing shop 2 = Some shield
   \<and> status shield = ''pending'' \<and> seller_id shield \<noteq> user_id bob
   \<and> snd (buy provider_up 2 shop) = Redirect ''https://pay.example/checkout''
   \<and> length (payments (fst (buy provider_up 2 shop))) = 1
   \<and> status_of (fst (buy provider_up 2 shop)) 2 = Some ''pending''"
proof -
  have h1: "current_user shop = Some bob"
    by (simp add: shop_defs current_user_def load_user_def)
  have h2: "get_listing shop 2 = Some shield"
    by (simp add: shop_defs get_listing_def)
  have h3: "status shield = ''pending''"
    by (simp add: shield_def)
  have h4: "seller_id shield \<noteq> user_id bob"
    by (simp add: shop_defs)
  have h5: "payment_create provider_up (payment_request_for provider_up shield 2)
      (idempotence_key provider_up) = Inr ''https://pay.example/checkout''"
    by (simp add: provider_up_def)
  have h6: "payments shop = []"
    by (simp add: shop_def)
  show ?thesis
    using buy_ignores_pending_status [OF h1 h2 h3 h4 h5] h1 h2 h3 h4 h6 by simp
qed

text \<open>
  C4. When the logged-in user is the seller of an \<open>active\<close> listing, \<open>buy\<close> flashes its
  message and redirects home; the provider is not called, the listings table is as it was
  and the listing is still \<open>active\<close>.
\<close>

theorem buy_own_listing_refused:
  assumes "current_user w = Some cu" and "get_listing w lid = Some l"
    and "seller_id l = user_id cu" and "status l = ''active''"
  shows "buy e lid w = (flash ''Cannot buy your own listing'' w, Redirect ''/'')
    \<and> payments (fst (buy e lid w)) = payments w
    \<and> listings (fst (buy e lid w)) = listings w
    \<and> status_of (fst (buy e lid w)) lid = Some ''active''"
proof -
  have "buy e lid w = (flash ''Cannot buy your own listing'' w, Redirect ''/'')"
    using assms(1-3) by (simp add: buy_def url_for_def)
  then show ?thesis
    using assms(2,4) by (simp add: status_of_def)
qed

theorem buy_own_listing_refused_witness:
  "current_user shop = Some bob \<and> get_listing shop 3 = Some bow
   \<and> seller_id bow = user_id bob \<and> status bow = ''active''
   \<and> snd (buy provider_up 3 shop) = Redirect ''/''
   \<and> payments (fst (buy provider_up 3 shop)) = []
   \<and> status_of (fst (buy provider_up 3 shop)) 3 = Some ''active''"
proof -
  have h1: "current_user shop = Some bob"
    by (simp add: shop_defs current_user_def load_user_def)
  have h2: "get_listing shop 3 = Some bow"
    by (simp add: shop_defs get_listing_def)
  have h3: "seller_id bow = user_id bob"
    by (simp add: shop_defs)
  have h4: "status bow = ''active''"
    by (simp add: bow_def)
  have h5: "payments shop = []"
    by (simp add: shop_def)
  show ?thesis
    using buy_own_listing_refused [OF h1 h2 h3 h4, of provider_up] h1 h2 h3 h4 h5
    by (simp add: status_of_def)
qed


section \<open>Registration\<close>

text \<open>
  C5 (as stated it fails). Dave registers with Alice's email address and a user name of
  his own: the user name check passes, the insert violates the unique constraint on
  \<open>email\<close>, and the table still has its three rows.
\<close>

theorem register_duplicate_email_counterexample:
  "user_by_username visitor ''dave'' = None
   \<and> email alice = ''alice@example.org''
   \<and> snd (register provider_up dave_request visitor) = Unhandled IntegrityError
   \<and> users (fst (register provider_up dave_request visitor)) = [alice, bob, carol]"
  by (simp add: dave_request_def visitor_def shop_defs model_defs register_def)

text \<open>
  C5, amended. A registration whose user name is new but whose email equals that of an
  existing account is not refused by the handler's user name check; the insert then fails
  on the unique constraint of the \<open>email\<close> column, the fault is not caught, and no
  account row is added.
\<close>

theorem register_duplicate_email_integrity_fault:
  assumes "req_method r = POST" and "form r ''username'' = Some un"
    and "form r ''email'' = Some em" and "form r ''password'' = Some pw"
    and "user_by_username w un = None" and "u \<in> set (users w)" and "email u = em"
  shows "register e r w = (w, Unhandled IntegrityError)
    \<and> users (fst (register e r w)) = users w"
proof -
  have "list_ex (\<lambda>x. username x = un \<or> email x = em) (users w)"
    using assms(6,7) by (auto simp: list_ex_iff)
  then have "insert_user w un em (generate_password_hash e pw) = Inl IntegrityError"
    by (simp add: insert_user_def)
  then show ?thesis
    using assms(1-5) by (simp add: register_def)
qed

theorem register_duplicate_email_integrity_fault_witness:
  "req_method dave_request = POST \<and> form dave_request ''username'' = Some ''dave''
   \<and> form dave_request ''email'' = Some ''alice@example.org''
   \<and> form dave_request ''password'' = Some ''pw''
   \<and> user_by_username visitor ''dave'' = None
   \<and> alice \<in> set (users visitor) \<and> email alice = ''alice@example.org''
   \<and> register provider_up dave_request visitor = (visitor, Unhandled IntegrityError)"
proof -
  have h1: "req_method dave_request = POST"
    and h2: "form dave_request ''username'' = Some ''dave''"
    and h3: "form dave_request ''email'' = Some ''alice@example.org''"
    and h4: "form dave_request ''password'' = Some ''pw''"
    by (simp_all add: dave_request_def post_def)
  have h5: "user_by_username visitor ''dave'' = None"
    by (simp add: visitor_def shop_defs user_by_username_def)
  have h6: "alice \<in> set (users visitor)"
    by (simp add: visitor_def shop_def)
  have h7: "email alice = ''alice@example.org''"
    by (simp add: alice_def)
  show ?thesis
    using register_duplicate_email_integrity_fault [OF h1 h2 h3 h4 h5 h6 h7, of provider_up]
      h1 h2 h3 h4 h5 h6 h7
    by simp
qed

text \<open>
  C6. When the table has an account with the submitted user name, the registration is
  refused with a message and a redirect back to the form; the users table is as it was,
  so no row is added and the lookup by that user name returns the account it returned
  before.
\<close>

theorem register_duplicate_username_rejected:
  assumes "req_method r = POST" and "form r ''username'' = Some un"
    and "form r ''email'' = Some em" and "form r ''password'' = Some pw"
    and "u \<in> set (users w)" and "username u = un"
  shows "register e r w = (flash ''Username already exists'' w, Redirect ''/register'')
    \<and> users (fst (register e r w)) = users w
    \<and> u \<in> set (users (fst (register e r w)))
    \<and> user_by_username (fst (register e r w)) un = user_by_username w un
    \<and> user_by_username w un \<noteq> None"
proof -
  have found: "user_by_username w un \<noteq> None"
    using assms(5,6) by (auto simp: user_by_username_def find_None_iff)
  then have "register e r w = (flash ''Username already exists'' w, Redirect ''/register'')"
    using assms(1-4) by (simp add: register_def url_for_def)
  with found assms(5) show ?thesis by simp
qed

theorem register_duplicate_username_rejected_witness:
  "req_method alice_again_request = POST
   \<and> form alice_again_request ''username'' = Some ''alice''
   \<and> form alice_again_request ''email'' = Some ''other@example.org''
   \<and> form alice_again_request ''password'' = Some ''pw''
   \<and> alice \<in> set (users visitor) \<and> username alice = ''alice''
   \<and> snd (register provider_up alice_again_request visitor) = Redirect ''/register''
   \<and> users (fst (register provider_up alice_again_request visitor)) = [alice, bob, carol]
   \<and> user_by_username (fst (register provider_up alice_again_request visitor)) ''alice''
       = Some alice"
proof -
  have h1: "req_method alice_again_request = POST"
    and h2: "form alice_again_request ''username'' = Some ''alice''"
    and h3: "form alice_again_request ''email'' = Some ''other@example.org''"
    and h4: "form alice_again_request ''password'' = Some ''pw''"
    by (simp_all add: alice_again_request_def post_def)
  have h5: "alice \<in> set (users visitor)"
    by (simp add: visitor_def shop_def)
  have h6: "username alice = ''alice''"
    by (simp add: alice_def)
  have h7: "users visitor = [alice, bob, carol]"
    by (simp add: visitor_def shop_def)
  have h8: "user_by_username visitor ''alice'' = Some alice"
    by (simp add: visitor_def shop_defs user_by_username_def)
  show ?thesis
    using register_duplicate_username_rejected [OF h1 h2 h3 h4 h5 h6, of provider_up]
      h1 h2 h3 h4 h5 h6 h7 h8
    by simp
qed


section \<open>The front page\<close>

text \<open>
  C7. \<open>index\<close> changes nothing and renders exactly the rows of the listings table whose
  status is \<open>active\<close>, each as often as the table has it and however many there are,
  none of them \<open>pending\<close> or \<open>sold\<close>, in descending order of \<open>created_at\<close>.
\<close>

theorem index_lists_active:
  "fst (index w) = w
   \<and> snd (index w) = Render ''index.html'' (listActive w)
   \<and> mset (listActive w) = mset (filter (\<lambda>l. status l = ''active'') (listings w))
   \<and> set (listActive w) = {l \<in> set (listings w). status l = ''active''}
   \<and> (\<forall>l \<in> set (listActive w). status l \<noteq> ''pending'' \<and> status l \<noteq> ''sold'')
   \<and> length (listActive w) = length (filter (\<lambda>l. status l = ''active'') (listings w))
   \<and> sorted_wrt (\<lambda>a b. created_at b \<le> created_at a) (listActive w)"
proof -
  let ?act = "filter (\<lambda>l. status l = ''active'') (listings w)"
  have la: "listActive w = sort_key (\<lambda>l. - created_at l) ?act"
    by (simp add: listActive_def index_def order_by_created_at_desc_def)
  have "sorted (map (\<lambda>l. - created_at l) (listActive w))"
    unfolding la by (rule sorted_sort_key)
  then have ord: "sorted_wrt (\<lambda>a b. created_at b \<le> created_at a) (listActive w)"
    by (simp add: sorted_map)
  have ms: "mset (listActive w) = mset ?act"
    unfolding la by simp
  have len: "length (listActive w) = length ?act"
    unfolding la by simp
  have st: "set (listActive w) = {l \<in> set (listings w). status l = ''active''}"
    by (rule set_listActive)
  have no: "\<forall>l \<in> set (listActive w). status l \<noteq> ''pending'' \<and> status l \<noteq> ''sold''"
    unfolding st by simp
  have ix: "fst (index w) = w \<and> snd (index w) = Render ''index.html'' (listActive w)"
    by (simp add: listActive_def index_def)
  from ix ms st no len ord show ?thesis by (intro conjI) (simp_all only: simp_thms)
qed

theorem index_lists_active_witness:
  "map status (listings shop) = [''active'', ''pending'', ''active'']
   \<and> fst (index shop) = shop
   \<and> listActive shop = [bow, sword]
   \<and> mset (listActive shop) = mset [sword, bow]
   \<and> sorted_wrt (\<lambda>a b. created_at b \<le> created_at a) (listActive shop)"
proof -
  have h1: "map status (listings shop) = [''active'', ''pending'', ''active'']"
    by (simp add: shop_defs)
  have h2: "listActive shop = [bow, sword]"
    by (simp add: shop_defs model_defs)
  have h3: "filter (\<lambda>l. status l = ''active'') (listings shop) = [sword, bow]"
    by (simp add: shop_defs)
  show ?thesis
    using index_lists_active [of shop] h1 h3 by (simp add: h2)
qed


section \<open>Login\<close>

text \<open>
  C8. A login with the user name of an existing account and a password that does not
  verify, and a login with a user name that no account has, get the same response: the
  login page again, after the same flashed message, with the session's user as it was.
\<close>

theorem login_failure_uniform:
  assumes "req_method r1 = POST" and "form r1 ''username'' = Some un1"
    and "user_by_username w1 un1 = Some u" and "form r1 ''password'' = Some pw"
    and "\<not> check_password_hash e (password u) pw"
    and "req_method r2 = POST" and "form r2 ''username'' = Some un2"
    and "user_by_username w2 un2 = None"
  shows "snd (login e r1 w1) = snd (login e r2 w2)
    \<and> snd (login e r1 w1) = Render ''login.html'' []
    \<and> fst (login e r1 w1) = flash ''Invalid credentials'' w1
    \<and> fst (login e r2 w2) = flash ''Invalid credentials'' w2
    \<and> session_user (fst (login e r1 w1)) = session_user w1
    \<and> session_user (fst (login e r2 w2)) = session_user w2"
proof -
  have a: "login e r1 w1 = (flash ''Invalid credentials'' w1, Render ''login.html'' [])"
    using assms(1-5) by (simp add: login_def)
  have b: "login e r2 w2 = (flash ''Invalid credentials'' w2, Render ''login.html'' [])"
    using assms(6-8) by (simp add: login_def)
  show ?thesis by (simp add: a b)
qed

theorem login_failure_uniform_witness:
  "user_by_username visitor ''alice'' = Some alice
   \<and> \<not> check_password_hash provider_up (password alice) ''guess''
   \<and> user_by_username visitor ''mallory'' = None
   \<and> login provider_up wrong_password_request visitor
       = login provider_up unknown_user_request visitor
   \<and> snd (login provider_up wrong_password_request visitor) = Render ''login.html'' []
   \<and> session_user (fst (login provider_up wrong_password_request visitor)) = None
   \<and> session_user (fst (login provider_up unknown_user_request visitor)) = None"
proof -
  have h1: "req_method wrong_password_request = POST"
    and h2: "form wrong_password_request ''username'' = Some ''alice''"
    and h4: "form wrong_password_request ''password'' = Some ''guess''"
    by (simp_all add: wrong_password_request_def post_def)
  have h3: "user_by_username visitor ''alice'' = Some alice"
    by (simp add: visitor_def shop_defs user_by_username_def)
  have h5: "\<not> check_password_hash provider_up (password alice) ''guess''"
    by (simp add: provider_up_def alice_def)
  have h6: "req_method unknown_user_request = POST"
    and h7: "form unknown_user_request ''username'' = Some ''mallory''"
    by (simp_all add: unknown_user_request_def post_def)
  have h8: "user_by_username visitor ''mallory'' = None"
    by (simp add: visitor_def shop_defs user_by_username_def)
  have h9: "session_user visitor = None"
    by (simp add: visitor_def)
  have eq: "login provider_up wrong_password_request visitor
      = login provider_up unknown_user_request visitor"
    using login_failure_uniform [OF h1 h2 h3 h4 h5 h6 h7 h8]
    by (simp add: prod_eq_iff)
  show ?thesis
    using login_failure_uniform [OF h1 h2 h3 h4 h5 h6 h7 h8] h3 h5 h8 h9 eq by simp
qed

section \<open>The payment callback\<close>

text \<open>
  C9. Whatever the request, \<open>confirm_payment\<close> leaves both tables, the session's user,
  the calls made to the provider and the uploaded files as they were; in particular every
  listing has the status it had, and only the flashed messages can differ. A \<open>GET\<close>
  request, the only one the route lets through, gets the generic message and the redirect
  home whatever it carries: two \<open>GET\<close> requests get the same answer.
\<close>

theorem confirm_payment_no_effect:
  "users (fst (confirm_payment r w)) = users w
   \<and> listings (fst (confirm_payment r w)) = listings w
   \<and> session_user (fst (confirm_payment r w)) = session_user w
   \<and> payments (fst (confirm_payment r w)) = payments w
   \<and> uploads (fst (confirm_payment r w)) = uploads w
   \<and> status_of (fst (confirm_payment r w)) lid = status_of w lid
   \<and> fst (confirm_payment r w) = w\<lparr>flashes := flashes (fst (confirm_payment r w))\<rparr>
   \<and> (req_method r = GET \<longrightarrow>
        confirm_payment r w =
          (flash ''Payment processed! Check your email for delivery.'' w, Redirect ''/''))
   \<and> (req_method r = GET \<and> req_method r' = GET \<longrightarrow>
        confirm_payment r w = confirm_payment r' w)"
  by (simp add: confirm_payment_def url_for_def flash_def status_of_def get_listing_def)

theorem confirm_payment_no_effect_witness:
  "req_method callback_request = GET
   \<and> form callback_request ''listing_id'' = Some ''1''
   \<and> status_of after_first_purchase 1 = Some ''pending''
   \<and> confirm_payment callback_request after_first_purchase =
       (flash ''Payment processed! Check your email for delivery.'' after_first_purchase,
        Redirect ''/'')
   \<and> listings (fst (confirm_payment callback_request after_first_purchase))
       = listings after_first_purchase
   \<and> status_of (fst (confirm_payment callback_request after_first_purchase)) 1
       = Some ''pending''"
proof -
  have g: "req_method callback_request = GET"
    and f: "form callback_request ''listing_id'' = Some ''1''"
    by (simp_all add: callback_request_def)
  have h: "status_of after_first_purchase 1 = Some ''pending''"
    by (simp add: after_first_purchase_def shop_defs model_defs buy_def Let_def)
  show ?thesis
    using confirm_payment_no_effect [of callback_request after_first_purchase 1 callback_request]
      g f h
    by simp
qed

section \<open>Creating a listing\<close>

lemma negative_not_nan: "negative p \<Longrightarrow> p \<noteq> NotANumber"
  by (cases p) simp_all

text \<open>
  C10. For a logged-in user posting a title, a description and a price: when \<open>float\<close>
  rejects the price, the handler ends in the uncaught \<open>ValueError\<close> and the state,
  tables and upload folder included, is as it was; when the price parses to a negative
  value (a negative number or minus infinity), and the game is posted and the image (if
  any) is saved, a row with that negative price is appended to the listings table and the
  user is redirected home. A price that parses to NaN is neither case: the commit raises
  \<open>IntegrityError\<close> and the listings table is as it was.
\<close>

theorem add_listing_price:
  assumes "current_user w = Some cu" and "req_method r = POST"
    and "form r ''title'' = Some t" and "form r ''description'' = Some d"
    and "form r ''price'' = Some ps"
  shows "(float_of_str e ps = None \<longrightarrow> add_listing e r w = (w, Unhandled ValueError))
    \<and> (float_of_str e ps = Some p \<and> negative p \<and> form r ''game'' = Some g
         \<and> save_image e r w = Inr (img, w1) \<longrightarrow>
       snd (add_listing e r w) = Redirect ''/''
       \<and> users (fst (add_listing e r w)) = users w
       \<and> listings (fst (add_listing e r w)) = listings w @
           [\<lparr>listing_id = next_id (map listing_id (listings w)), title = t, description = d,
             price = p, game = g, image_file = img, seller_id = user_id cu,
             status = ''active'', created_at = utcnow e\<rparr>])
    \<and> (float_of_str e ps = Some NotANumber \<and> form r ''game'' = Some g
         \<and> save_image e r w = Inr (img, w1) \<longrightarrow>
       add_listing e r w = (w1, Unhandled IntegrityError)
       \<and> listings (fst (add_listing e r w)) = listings w)"
proof (intro conjI impI)
  assume "float_of_str e ps = None"
  with assms show "add_listing e r w = (w, Unhandled ValueError)"
    by (simp add: add_listing_def)
next
  assume a: "float_of_str e ps = Some p \<and> negative p \<and> form r ''game'' = Some g
    \<and> save_image e r w = Inr (img, w1)"
  then have tabs: "listings w1 = listings w" "users w1 = users w"
    using save_image_tables [of e r w img w1] by simp_all
  from a have "p \<noteq> NotANumber"
    by (simp add: negative_not_nan)
  then have ins: "insert_listing e w1 t d p g img (user_id cu) =
      Inr (w1\<lparr>listings := listings w1 @
        [\<lparr>listing_id = next_id (map listing_id (listings w1)), title = t, description = d,
          price = p, game = g, image_file = img, seller_id = user_id cu,
          status = ''active'', created_at = utcnow e\<rparr>]\<rparr>)"
    by (simp add: insert_listing_def)
  have res: "add_listing e r w =
      (flash ''Listing added!'' (w1\<lparr>listings := listings w1 @
        [\<lparr>listing_id = next_id (map listing_id (listings w1)), title = t, description = d,
          price = p, game = g, image_file = img, seller_id = user_id cu,
          status = ''active'', created_at = utcnow e\<rparr>]\<rparr>), Redirect ''/'')"
    using assms a by (simp add: add_listing_def url_for_def ins)
  show "snd (add_listing e r w) = Redirect ''/''"
    by (simp add: res)
  show "users (fst (add_listing e r w)) = users w"
    by (simp add: res tabs)
  show "listings (fst (add_listing e r w)) = listings w @
      [\<lparr>listing_id = next_id (map listing_id (listings w)), title = t, description = d,
        price = p, game = g, image_file = img, seller_id = user_id cu,
        status = ''active'', created_at = utcnow e\<rparr>]"
    by (simp add: res tabs)
next
  assume a: "float_of_str e ps = Some NotANumber \<and> form r ''game'' = Some g
    \<and> save_image e r w = Inr (img, w1)"
  then have tabs: "listings w1 = listings w"
    using save_image_tables [of e r w img w1] by simp
  have res: "add_listing e r w = (w1, Unhandled IntegrityError)"
    using assms a by (simp add: add_listing_def insert_listing_def)
  show "add_listing e r w = (w1, Unhandled IntegrityError)"
    by (rule res)
  show "listings (fst (add_listing e r w)) = listings w"
    by (simp add: res tabs)
qed

theorem add_listing_price_witness:
  "current_user shop = Some bob
   \<and> float_of_str provider_up ''abc'' = None
   \<and> add_listing provider_up (axe_request ''abc'') shop = (shop, Unhandled ValueError)
   \<and> float_of_str provider_up ''-5'' = Some (Number (- 5)) \<and> negative (Number (- 5))
   \<and> snd (add_listing provider_up (axe_request ''-5'') shop) = Redirect ''/''
   \<and> listings (fst (add_listing provider_up (axe_request ''-5'') shop)) = listings shop @
       [\<lparr>listing_id = 4, title = ''Axe'', description = ''heavy'', price = Number (- 5),
         game = ''Z'', image_file = None, seller_id = 2, status = ''active'',
         created_at = 1000\<rparr>]
   \<and> float_of_str provider_up ''-inf'' = Some MinusInfinity \<and> negative MinusInfinity
   \<and> listings (fst (add_listing provider_up (axe_request ''-inf'') shop)) = listings shop @
       [\<lparr>listing_id = 4, title = ''Axe'', description = ''heavy'', price = MinusInfinity,
         game = ''Z'', image_file = None, seller_id = 2, status = ''active'',
         created_at = 1000\<rparr>]
   \<and> float_of_str provider_up ''nan'' = Some NotANumber
   \<and> add_listing provider_up (axe_request ''nan'') shop = (shop, Unhandled IntegrityError)"
proof -
  have h1: "current_user shop = Some bob"
    by (simp add: shop_defs current_user_def load_user_def)
  have h2: "req_method (axe_request ps) = POST"
    and h3: "form (axe_request ps) ''title'' = Some ''Axe''"
    and h4: "form (axe_request ps) ''description'' = Some ''heavy''"
    and h5: "form (axe_request ps) ''price'' = Some ps"
    and h6: "form (axe_request ps) ''game'' = Some ''Z''"
    and img: "save_image provider_up (axe_request ps) shop = Inr (None, shop)" for ps
    by (simp_all add: axe_request_def post_def save_image_def)
  have p1: "float_of_str provider_up ''abc'' = None"
    and p2: "float_of_str provider_up ''-5'' = Some (Number (- 5))"
    and p3: "float_of_str provider_up ''-inf'' = Some MinusInfinity"
    and p4: "float_of_str provider_up ''nan'' = Some NotANumber"
    by (simp_all add: provider_up_def)
  have ids: "next_id (map listing_id (listings shop)) = 4"
    by (simp add: shop_defs next_id_def)
  have sid: "user_id bob = 2" "utcnow provider_up = 1000"
    by (simp_all add: bob_def provider_up_def)
  note bad = add_listing_price [OF h1 h2 h3 h4 h5, of provider_up "''abc''"]
  note neg = add_listing_price
    [OF h1 h2 h3 h4 h5, of provider_up "''-5''" "Number (- 5)" "''Z''" None shop]
  note inf = add_listing_price
    [OF h1 h2 h3 h4 h5, of provider_up "''-inf''" MinusInfinity "''Z''" None shop]
  note nan = add_listing_price
    [OF h1 h2 h3 h4 h5, of provider_up "''nan''" NotANumber "''Z''" None shop]
  have c1: "add_listing provider_up (axe_request ''abc'') shop = (shop, Unhandled ValueError)"
    using bad p1 by simp
  have c2: "snd (add_listing provider_up (axe_request ''-5'') shop) = Redirect ''/''
    \<and> listings (fst (add_listing provider_up (axe_request ''-5'') shop)) = listings shop @
       [\<lparr>listing_id = 4, title = ''Axe'', description = ''heavy'', price = Number (- 5),
         game = ''Z'', image_file = None, seller_id = 2, status = ''active'',
         created_at = 1000\<rparr>]"
    using neg p2 h6 img ids sid by simp
  have c3: "listings (fst (add_listing provider_up (axe_request ''-inf'') shop)) =
      listings shop @
       [\<lparr>listing_id = 4, title = ''Axe'', description = ''heavy'', price = MinusInfinity,
         game = ''Z'', image_file = None, seller_id = 2, status = ''active'',
         created_at = 1000\<rparr>]"
    using inf p3 h6 img ids sid by simp
  have c4: "add_listing provider_up (axe_request ''nan'') shop =
      (shop, Unhandled IntegrityError)"
    using nan p4 h6 img by simp
  from h1 p1 c1 p2 c2 p3 c3 p4 c4 show ?thesis by simp
qed

end
